theory Spec2Isabelle
  imports Main "HOL-Library.Word"
begin

section \<open>Python values\<close>

text \<open>
  The handler of \<^verbatim>\<open>lambda/handler.py\<close> receives two Python objects and treats the
  first one as a tree of builtin values. A Python \<^verbatim>\<open>str\<close> is a sequence of code
  points, so it is a list of naturals here; \<open>ascii\<close> turns a literal into one.
  A float is its 64 bits. \<open>PObject n\<close> stands for an instance of any other class,
  \<open>n\<close> being the name of the class (\<^verbatim>\<open>set\<close>, \<^verbatim>\<open>bytes\<close>, \<^verbatim>\<open>datetime\<close>, ...).
  A dict is the list of its items in insertion order.
\<close>

type_synonym pystr = "nat list"

datatype pyval =
    PNone
  | PBool bool
  | PInt int
  | PFloat "64 word"
  | PStr pystr
  | PList "pyval list"
  | PTuple "pyval list"
  | PDict "(pyval \<times> pyval) list"
  | PObject string

datatype error = TypeError pystr

definition ascii :: "string \<Rightarrow> pystr" where
  "ascii s = map of_char s"

fun class_name :: "pyval \<Rightarrow> pystr" where
  "class_name PNone = ascii ''NoneType''"
| "class_name (PBool b) = ascii ''bool''"
| "class_name (PInt i) = ascii ''int''"
| "class_name (PFloat x) = ascii ''float''"
| "class_name (PStr s) = ascii ''str''"
| "class_name (PList xs) = ascii ''list''"
| "class_name (PTuple xs) = ascii ''tuple''"
| "class_name (PDict items) = ascii ''dict''"
| "class_name (PObject n) = ascii n"

section \<open>The serializer: \<^verbatim>\<open>json.dumps\<close>\<close>

text \<open>
  The handler calls \<^verbatim>\<open>json.dumps(event, indent=2)\<close> and \<^verbatim>\<open>json.dumps('Success')\<close>.
  Both go through the encoder of the standard library with \<^verbatim>\<open>ensure_ascii\<close>,
  \<^verbatim>\<open>allow_nan\<close> and \<^verbatim>\<open>check_circular\<close> at their defaults and \<^verbatim>\<open>skipkeys\<close>,
  \<^verbatim>\<open>sort_keys\<close> off. The definitions below follow \<^verbatim>\<open>json/encoder.py\<close>:
  \<^verbatim>\<open>py_encode_basestring_ascii\<close>, \<^verbatim>\<open>floatstr\<close>, and the three generators of
  \<^verbatim>\<open>_make_iterencode\<close>. Values are trees, so the circular-reference check never
  fires; the limits of the interpreter (recursion depth, digits of an int, memory)
  are resource exhaustion, which is the platform's.
\<close>

definition hex_digit :: "nat \<Rightarrow> nat" where
  "hex_digit d = (if d mod 16 < 10 then 0x30 + d mod 16 else 0x57 + d mod 16)"

text \<open>\<^verbatim>\<open>'{0:04x}'.format(n)\<close> for \<open>n < 0x10000\<close>.\<close>

definition hex4 :: "nat \<Rightarrow> pystr" where
  "hex4 n = [hex_digit (n div 4096), hex_digit (n div 256), hex_digit (n div 16), hex_digit n]"

text \<open>
  The replacement of one character: the regular expression \<^verbatim>\<open>([\\"]|[^\ -~])\<close>
  leaves the printable ASCII characters other than backslash and double quote alone;
  the others are looked up in \<^verbatim>\<open>ESCAPE_DCT\<close> or written as \<^verbatim>\<open>\uXXXX\<close>, a code
  point beyond the basic plane as a surrogate pair.
\<close>

definition escape_char :: "nat \<Rightarrow> pystr" where
  "escape_char c =
     (if c = 0x5C then [0x5C, 0x5C]
      else if c = 0x22 then [0x5C, 0x22]
      else if c = 0x08 then [0x5C, 0x62]
      else if c = 0x0C then [0x5C, 0x66]
      else if c = 0x0A then [0x5C, 0x6E]
      else if c = 0x0D then [0x5C, 0x72]
      else if c = 0x09 then [0x5C, 0x74]
      else if 0x20 \<le> c \<and> c \<le> 0x7E then [c]
      else if c < 0x10000 then 0x5C # 0x75 # hex4 c
      else (let n = c - 0x10000;
                s1 = 0xD800 + (n div 1024) mod 1024;
                s2 = 0xDC00 + n mod 1024
            in 0x5C # 0x75 # hex4 s1 @ 0x5C # 0x75 # hex4 s2))"

definition encode_basestring_ascii :: "pystr \<Rightarrow> pystr" where
  "encode_basestring_ascii s = 0x22 # concat (map escape_char s) @ [0x22]"

text \<open>\<^verbatim>\<open>int.__repr__\<close>: the decimal digits, with a minus sign for a negative number.\<close>

fun nat_repr :: "nat \<Rightarrow> pystr" where
  "nat_repr n = (if n < 10 then [0x30 + n] else nat_repr (n div 10) @ [0x30 + n mod 10])"

declare nat_repr.simps [simp del]

definition int_repr :: "int \<Rightarrow> pystr" where
  "int_repr i = (if i < 0 then 0x2D # nat_repr (nat (- i)) else nat_repr (nat i))"

text \<open>
  \<^verbatim>\<open>floatstr\<close>: the three special values have their own spelling, every other float
  is written by \<^verbatim>\<open>float.__repr__\<close>, which is a parameter of the model.
\<close>

type_synonym float_repr = "64 word \<Rightarrow> pystr"

definition float_is_nan :: "64 word \<Rightarrow> bool" where
  "float_is_nan x \<longleftrightarrow> take_bit 11 (drop_bit 52 x) = 0x7FF \<and> take_bit 52 x \<noteq> 0"

definition floatstr :: "float_repr \<Rightarrow> 64 word \<Rightarrow> pystr" where
  "floatstr frepr x =
     (if float_is_nan x then ascii ''NaN''
      else if x = 0x7FF0000000000000 then ascii ''Infinity''
      else if x = 0xFFF0000000000000 then ascii ''-Infinity''
      else frepr x)"

text \<open>
  The key of a dict item, as \<^verbatim>\<open>_iterencode_dict\<close> converts it before encoding it as a
  string; with \<^verbatim>\<open>skipkeys\<close> off any other key raises.
\<close>

fun key_str :: "float_repr \<Rightarrow> pyval \<Rightarrow> error + pystr" where
  "key_str frepr (PStr s) = Inr s"
| "key_str frepr (PFloat x) = Inr (floatstr frepr x)"
| "key_str frepr (PBool True) = Inr (ascii ''true'')"
| "key_str frepr (PBool False) = Inr (ascii ''false'')"
| "key_str frepr PNone = Inr (ascii ''null'')"
| "key_str frepr (PInt i) = Inr (int_repr i)"
| "key_str frepr k =
     Inl (TypeError (ascii ''keys must be str, int, float, bool or None, not '' @ class_name k))"

text \<open>
  \<open>indent\<close> is the \<^verbatim>\<open>indent\<close> argument (\<open>None\<close>, or the number of spaces). With an
  indent the item separator is a comma and every item starts on a line of its own.
\<close>

definition newline_indent :: "nat option \<Rightarrow> nat \<Rightarrow> pystr" where
  "newline_indent indent level =
     (case indent of None \<Rightarrow> [] | Some n \<Rightarrow> 0x0A # replicate (n * level) 0x20)"

definition item_separator :: "nat option \<Rightarrow> pystr" where
  "item_separator indent = (case indent of None \<Rightarrow> ascii '', '' | Some n \<Rightarrow> ascii '','')"

text \<open>
  The chunks of the items of a container are produced in order and joined; the first
  item that raises ends the encoding.
\<close>

fun join_chunks :: "pystr \<Rightarrow> (error + pystr) list \<Rightarrow> error + pystr" where
  "join_chunks sep [] = Inr []"
| "join_chunks sep [r] = r"
| "join_chunks sep (r # rs) =
     (case r of
        Inl e \<Rightarrow> Inl e
      | Inr s \<Rightarrow> (case join_chunks sep rs of Inl e \<Rightarrow> Inl e | Inr t \<Rightarrow> Inr (s @ sep @ t)))"

fun iterencode :: "float_repr \<Rightarrow> nat option \<Rightarrow> nat \<Rightarrow> pyval \<Rightarrow> error + pystr" where
  "iterencode frepr indent level (PStr s) = Inr (encode_basestring_ascii s)"
| "iterencode frepr indent level PNone = Inr (ascii ''null'')"
| "iterencode frepr indent level (PBool True) = Inr (ascii ''true'')"
| "iterencode frepr indent level (PBool False) = Inr (ascii ''false'')"
| "iterencode frepr indent level (PInt i) = Inr (int_repr i)"
| "iterencode frepr indent level (PFloat x) = Inr (floatstr frepr x)"
| "iterencode frepr indent level (PList xs) =
     (if xs = [] then Inr (ascii ''[]'')
      else case join_chunks (item_separator indent @ newline_indent indent (level + 1))
                  (map (iterencode frepr indent (level + 1)) xs) of
             Inl e \<Rightarrow> Inl e
           | Inr body \<Rightarrow>
               Inr (ascii ''['' @ newline_indent indent (level + 1) @ body
                    @ newline_indent indent level @ ascii '']''))"
| "iterencode frepr indent level (PTuple xs) =
     (if xs = [] then Inr (ascii ''[]'')
      else case join_chunks (item_separator indent @ newline_indent indent (level + 1))
                  (map (iterencode frepr indent (level + 1)) xs) of
             Inl e \<Rightarrow> Inl e
           | Inr body \<Rightarrow>
               Inr (ascii ''['' @ newline_indent indent (level + 1) @ body
                    @ newline_indent indent level @ ascii '']''))"
| "iterencode frepr indent level (PDict items) =
     (if items = [] then Inr (ascii ''{}'')
      else case join_chunks (item_separator indent @ newline_indent indent (level + 1))
                  (map (\<lambda>(k, v).
                          case key_str frepr k of
                            Inl e \<Rightarrow> Inl e
                          | Inr ks \<Rightarrow>
                              (case iterencode frepr indent (level + 1) v of
                                 Inl e \<Rightarrow> Inl e
                               | Inr vs \<Rightarrow> Inr (encode_basestring_ascii ks @ ascii '': '' @ vs)))
                       items) of
             Inl e \<Rightarrow> Inl e
           | Inr body \<Rightarrow>
               Inr (ascii ''{'' @ newline_indent indent (level + 1) @ body
                    @ newline_indent indent level @ ascii ''}''))"
| "iterencode frepr indent level (PObject n) =
     Inl (TypeError (ascii ''Object of type '' @ ascii n @ ascii '' is not JSON serializable''))"

text \<open>\<^verbatim>\<open>JSONEncoder.encode\<close>: a string is encoded at once, anything else chunk by chunk.\<close>

definition json_dumps :: "float_repr \<Rightarrow> nat option \<Rightarrow> pyval \<Rightarrow> error + pystr" where
  "json_dumps frepr indent obj =
     (case obj of
        PStr s \<Rightarrow> Inr (encode_basestring_ascii s)
      | _ \<Rightarrow> iterencode frepr indent 0 obj)"

section \<open>The world of an invocation\<close>

text \<open>
  Python passes references. The objects the platform hands over live in a store,
  \<open>heap\<close>, and the handler gets the addresses of the event and of the context.
  \<open>stdout\<close> is the logging sink: the texts written so far, one per \<^verbatim>\<open>print\<close> call.
\<close>

type_synonym addr = nat

record world =
  heap :: "addr \<Rightarrow> pyval"
  stdout :: "pystr list"

text \<open>\<^verbatim>\<open>print(*args)\<close>: the arguments separated by a space, then a newline.\<close>

fun print_text :: "pystr list \<Rightarrow> pystr" where
  "print_text [] = [0x0A]"
| "print_text [a] = a @ [0x0A]"
| "print_text (a # as) = a @ [0x20] @ print_text as"

definition py_print :: "pystr list \<Rightarrow> 'a world_scheme \<Rightarrow> 'a world_scheme" where
  "py_print args w = w\<lparr>stdout := stdout w @ [print_text args]\<rparr>"

section \<open>The handler\<close>

text \<open>
  \<^verbatim>\<open>
  def lambda_handler(event, context):
      print("Received S3 event:", json.dumps(event, indent=2))
      return {'statusCode': 200, 'body': json.dumps('Success')}
  \<close>
  The arguments of \<^verbatim>\<open>print\<close> are evaluated before the call, so an exception of
  \<^verbatim>\<open>json.dumps\<close> leaves the function before anything is written. The result is the
  outcome (the exception, or the returned dict) and the world at that moment.
\<close>

definition lambda_handler ::
  "float_repr \<Rightarrow> addr \<Rightarrow> addr \<Rightarrow> 'a world_scheme \<Rightarrow> (error + pyval) \<times> 'a world_scheme" where
  "lambda_handler frepr event context w =
     (case json_dumps frepr (Some 2) (heap w event) of
        Inl e \<Rightarrow> (Inl e, w)
      | Inr s \<Rightarrow>
          (let w' = py_print [ascii ''Received S3 event:'', s] w
           in case json_dumps frepr None (PStr (ascii ''Success'')) of
                Inl e \<Rightarrow> (Inl e, w')
              | Inr b \<Rightarrow>
                  (Inr (PDict [(PStr (ascii ''statusCode''), PInt 200),
                               (PStr (ascii ''body''), PStr b)]), w')))"


section \<open>The deserializer: \<^verbatim>\<open>json.loads\<close>\<close>




definition hex_val :: "nat \<Rightarrow> nat option" where
  "hex_val c =
     (if 0x30 \<le> c \<and> c \<le> 0x39 then Some (c - 0x30)
      else if 0x61 \<le> c \<and> c \<le> 0x66 then Some (c - 0x57)
      else if 0x41 \<le> c \<and> c \<le> 0x46 then Some (c - 0x37)
      else None)"

definition decode_uXXXX :: "pystr \<Rightarrow> nat option" where
  "decode_uXXXX cs =
     (case cs of
        a # b # c # d # rest \<Rightarrow>
          (case (hex_val a, hex_val b, hex_val c, hex_val d) of
             (Some x, Some y, Some z, Some t) \<Rightarrow> Some (((x * 16 + y) * 16 + z) * 16 + t)
           | _ \<Rightarrow> None)
      | _ \<Rightarrow> None)"

definition backslash :: "nat \<Rightarrow> nat option" where
  "backslash esc =
     (if esc = 0x22 then Some 0x22
      else if esc = 0x5C then Some 0x5C
      else if esc = 0x2F then Some 0x2F
      else if esc = 0x62 then Some 0x08
      else if esc = 0x66 then Some 0x0C
      else if esc = 0x6E then Some 0x0A
      else if esc = 0x72 then Some 0x0D
      else if esc = 0x74 then Some 0x09
      else None)"

definition cons_char :: "nat \<Rightarrow> (pystr \<times> pystr) option \<Rightarrow> (pystr \<times> pystr) option" where
  "cons_char ch r = (case r of None \<Rightarrow> None | Some (s, rest) \<Rightarrow> Some (ch # s, rest))"

text \<open>The character of an escape and the number of characters it takes after the backslash.\<close>

definition scan_escape :: "pystr \<Rightarrow> (nat \<times> nat) option" where
  "scan_escape cs =
     (case cs of
        [] \<Rightarrow> None
      | esc # cs1 \<Rightarrow>
          if esc \<noteq> 0x75 then
            (case backslash esc of None \<Rightarrow> None | Some ch \<Rightarrow> Some (ch, 1))
          else
            (case decode_uXXXX cs1 of
               None \<Rightarrow> None
             | Some uni \<Rightarrow>
                 if 0xD800 \<le> uni \<and> uni \<le> 0xDBFF \<and> take 2 (drop 4 cs1) = [0x5C, 0x75] then
                   (case decode_uXXXX (drop 6 cs1) of
                      None \<Rightarrow> None
                    | Some uni2 \<Rightarrow>
                        if 0xDC00 \<le> uni2 \<and> uni2 \<le> 0xDFFF
                        then Some (0x10000 + ((uni - 0xD800) * 1024 + (uni2 - 0xDC00)), 11)
                        else Some (uni, 5))
                 else Some (uni, 5)))"

fun scanstring :: "pystr \<Rightarrow> (pystr \<times> pystr) option" where
  "scanstring [] = None"
| "scanstring (c # cs) =
     (if c = 0x22 then Some ([], cs)
      else if c = 0x5C then
        (case scan_escape cs of
           None \<Rightarrow> None
         | Some (ch, k) \<Rightarrow> cons_char ch (scanstring (drop k cs)))
      else if c < 0x20 then None
      else cons_char c (scanstring cs))"











section \<open>Events that are read back as they were\<close>

text \<open>
  A high surrogate followed by a low surrogate is written as two \<^verbatim>\<open>\uXXXX\<close> escapes,
  which is also how one character beyond the basic plane is written. \<open>json_exact\<close> is
  the set of values without such a pair in a string, without floats and tuples, and
  with distinct strings as the keys of every dict.
\<close>

definition is_high :: "nat \<Rightarrow> bool" where
  "is_high u \<longleftrightarrow> 0xD800 \<le> u \<and> u \<le> 0xDBFF"

definition is_low :: "nat \<Rightarrow> bool" where
  "is_low u \<longleftrightarrow> 0xDC00 \<le> u \<and> u \<le> 0xDFFF"

fun no_surrogate_pair :: "pystr \<Rightarrow> bool" where
  "no_surrogate_pair [] = True"
| "no_surrogate_pair (c # cs) =
     (c < 0x110000 \<and> \<not> (is_high c \<and> (case cs of [] \<Rightarrow> False | d # ds \<Rightarrow> is_low d))
      \<and> no_surrogate_pair cs)"


text \<open>
  Three notions for the proofs: a text that starts with the escape of a low surrogate
  (or with an escape that cannot be read), a text that can follow a value, and a text
  that starts as a value does.
\<close>

definition low_escape :: "pystr \<Rightarrow> bool" where
  "low_escape t \<longleftrightarrow> take 2 t = [0x5C, 0x75] \<and>
     (case decode_uXXXX (drop 2 t) of None \<Rightarrow> True | Some u \<Rightarrow> is_low u)"




section \<open>Basic facts\<close>

lemma dumps_Success:
  "json_dumps frepr None (PStr (ascii ''Success'')) = Inr ([0x22] @ ascii ''Success'' @ [0x22])"
  by (simp add: json_dumps_def encode_basestring_ascii_def escape_char_def ascii_def)

lemma lambda_handler_Inr:
  "json_dumps frepr (Some 2) (heap w event) = Inr s \<Longrightarrow>
   lambda_handler frepr event context w =
     (Inr (PDict [(PStr (ascii ''statusCode''), PInt 200),
                  (PStr (ascii ''body''), PStr ([0x22] @ ascii ''Success'' @ [0x22]))]),
      w\<lparr>stdout := stdout w @ [ascii ''Received S3 event:'' @ [0x20] @ s @ [0x0A]]\<rparr>)"
  by (simp add: lambda_handler_def dumps_Success py_print_def)

lemma lambda_handler_Inl:
  "json_dumps frepr (Some 2) (heap w event) = Inl e \<Longrightarrow>
   lambda_handler frepr event context w = (Inl e, w)"
  by (simp add: lambda_handler_def)




section \<open>Reading the serialized text back\<close>

subsection \<open>Strings are read back\<close>

lemma hex_val_hex_digit: "hex_val (hex_digit d) = Some (d mod 16)"
  by (auto simp: hex_val_def hex_digit_def)

lemma hex4_value:
  assumes "n < 65536"
  shows "(((n div 4096) mod 16 * 16 + (n div 256) mod 16) * 16 + (n div 16) mod 16) * 16 + n mod 16 = (n::nat)"
proof -
  define d0 where "d0 = n mod 16"
  define d1 where "d1 = n div 16 mod 16"
  define d2 where "d2 = n div 256 mod 16"
  define d3 where "d3 = n div 4096 mod 16"
  define m1 where "m1 = n mod 256"
  define m2 where "m2 = n mod 4096"
  have a: "m1 = 16 * d1 + d0"
    using mod_mult2_eq [of n 16 16] by (simp add: m1_def d1_def d0_def)
  have b: "m2 = 256 * d2 + m1"
    using mod_mult2_eq [of n 256 16] by (simp add: m1_def m2_def d2_def)
  have c: "n mod 65536 = 4096 * d3 + m2"
    using mod_mult2_eq [of n 4096 16] by (simp add: m2_def d3_def)
  have d: "n = 4096 * d3 + m2" using c assms by simp
  have "((d3 * 16 + d2) * 16 + d1) * 16 + d0 = n"
    unfolding d b a by simp
  then show ?thesis by (simp only: d0_def d1_def d2_def d3_def)
qed

lemma decode_uXXXX_hex4: "n < 0x10000 \<Longrightarrow> decode_uXXXX (hex4 n @ t) = Some n"
  using hex4_value [of n]
  by (simp add: decode_uXXXX_def hex4_def hex_val_hex_digit)

lemma scanstring_simple_escape:
  "backslash e = Some ch \<Longrightarrow> e \<noteq> 0x75 \<Longrightarrow> scanstring (0x5C # e # t) = cons_char ch (scanstring t)"
  by (simp add: scan_escape_def)

lemma scanstring_escape_char_short:
  assumes "c = 0x5C \<or> c = 0x22 \<or> c = 0x08 \<or> c = 0x0C \<or> c = 0x0A \<or> c = 0x0D \<or> c = 0x09"
  shows "scanstring (escape_char c @ t) = cons_char c (scanstring t)"
  using assms
  by (elim disjE)
     (simp_all add: escape_char_def scanstring_simple_escape backslash_def del: scanstring.simps)

lemma scanstring_escape_char_plain:
  assumes "0x20 \<le> c" "c \<le> 0x7E" "c \<noteq> 0x5C" "c \<noteq> 0x22"
  shows "scanstring (escape_char c @ t) = cons_char c (scanstring t)"
  using assms by (simp add: escape_char_def)

lemma scan_escape_u_single:
  assumes "decode_uXXXX (a # b # c # d # t) = Some n" "\<not> (is_high n \<and> low_escape t)"
  shows "scan_escape (0x75 # a # b # c # d # t) = Some (n, 5)"
  using assms
  by (auto simp: scan_escape_def low_escape_def is_high_def is_low_def split: option.splits)

lemma scanstring_u_single:
  assumes "n < 0x10000" "\<not> (is_high n \<and> low_escape t)"
  shows "scanstring (0x5C # 0x75 # hex4 n @ t) = cons_char n (scanstring t)"
proof -
  have "decode_uXXXX (hex_digit (n div 4096) # hex_digit (n div 256) # hex_digit (n div 16)
          # hex_digit n # t) = Some n"
    using decode_uXXXX_hex4 [OF assms(1), of t] by (simp add: hex4_def)
  from scan_escape_u_single [OF this assms(2)] show ?thesis
    by (simp add: hex4_def)
qed

lemma scan_escape_u_pair:
  assumes "decode_uXXXX (a # b # c # d # 0x5C # 0x75 # a' # b' # c' # d' # t) = Some s1"
    and "decode_uXXXX (a' # b' # c' # d' # t) = Some s2"
    and "is_high s1" "is_low s2"
  shows "scan_escape (0x75 # a # b # c # d # 0x5C # 0x75 # a' # b' # c' # d' # t) =
           Some (0x10000 + ((s1 - 0xD800) * 1024 + (s2 - 0xDC00)), 11)"
  using assms
  by (simp add: scan_escape_def is_high_def is_low_def)

lemma surrogates_of:
  fixes n :: nat
  assumes "n < 0x100000"
  shows "n div 1024 mod 1024 * 1024 + n mod 1024 = n"
proof -
  have "n div 1024 < 1024" using assms by simp
  then have "n div 1024 mod 1024 = n div 1024" by simp
  then show ?thesis by simp
qed

lemma scanstring_u_pair:
  assumes "0x10000 \<le> c" "c < 0x110000"
  shows "scanstring (escape_char c @ t) = cons_char c (scanstring t)"
proof -
  define n where "n = c - 0x10000"
  define s1 where "s1 = 0xD800 + n div 1024 mod 1024"
  define s2 where "s2 = 0xDC00 + n mod 1024"
  have n: "n < 0x100000" using assms by (simp add: n_def)
  have m1: "n div 1024 mod 1024 < 1024" and m2: "n mod 1024 < 1024" by simp_all
  have s1: "s1 < 0x10000" "is_high s1" using m1 by (simp_all add: s1_def is_high_def)
  have s2: "s2 < 0x10000" "is_low s2" using m2 by (simp_all add: s2_def is_low_def)
  have esc: "escape_char c = 0x5C # 0x75 # hex4 s1 @ 0x5C # 0x75 # hex4 s2"
    using assms by (simp add: escape_char_def Let_def n_def s1_def s2_def)
  have val: "0x10000 + ((s1 - 0xD800) * 1024 + (s2 - 0xDC00)) = c"
    using surrogates_of [OF n] assms by (simp add: s1_def s2_def n_def)
  have d1: "decode_uXXXX (hex_digit (s1 div 4096) # hex_digit (s1 div 256) # hex_digit (s1 div 16)
          # hex_digit s1 # 0x5C # 0x75 # hex_digit (s2 div 4096) # hex_digit (s2 div 256)
          # hex_digit (s2 div 16) # hex_digit s2 # t) = Some s1"
    using decode_uXXXX_hex4 [OF s1(1), of "0x5C # 0x75 # hex4 s2 @ t"] by (simp add: hex4_def)
  have d2: "decode_uXXXX (hex_digit (s2 div 4096) # hex_digit (s2 div 256)
          # hex_digit (s2 div 16) # hex_digit s2 # t) = Some s2"
    using decode_uXXXX_hex4 [OF s2(1), of t] by (simp add: hex4_def)
  from scan_escape_u_pair [OF d1 d2 s1(2) s2(2)] val show ?thesis
    by (simp add: esc hex4_def)
qed

lemma scanstring_escape_char:
  assumes "c < 0x110000" "\<not> (is_high c \<and> low_escape t)"
  shows "scanstring (escape_char c @ t) = cons_char c (scanstring t)"
proof -
  consider "c = 0x5C \<or> c = 0x22 \<or> c = 0x08 \<or> c = 0x0C \<or> c = 0x0A \<or> c = 0x0D \<or> c = 0x09"
    | "0x20 \<le> c" "c \<le> 0x7E" "c \<noteq> 0x5C" "c \<noteq> 0x22"
    | "c < 0x20" "c \<noteq> 0x08" "c \<noteq> 0x0C" "c \<noteq> 0x0A" "c \<noteq> 0x0D" "c \<noteq> 0x09"
    | "0x7E < c" "c < 0x10000"
    | "0x10000 \<le> c"
    by linarith
  then show ?thesis
  proof cases
    case 1
    then show ?thesis by (rule scanstring_escape_char_short)
  next
    case 2
    then show ?thesis by (rule scanstring_escape_char_plain)
  next
    case 3
    then have "escape_char c = 0x5C # 0x75 # hex4 c" by (simp add: escape_char_def)
    moreover have "c < 0x10000" using 3 by simp
    ultimately show ?thesis using scanstring_u_single [OF _ assms(2)] by simp
  next
    case 4
    then have "escape_char c = 0x5C # 0x75 # hex4 c" by (simp add: escape_char_def)
    then show ?thesis using scanstring_u_single [OF 4(2) assms(2)] by simp
  next
    case 5
    then show ?thesis using assms(1) by (rule scanstring_u_pair)
  qed
qed

lemma low_escape_quote: "\<not> low_escape (0x22 # rest)"
  by (simp add: low_escape_def)

lemma low_escape_escape_char:
  assumes "c < 0x110000" "low_escape (escape_char c @ t)"
  shows "is_low c"
proof -
  consider "c = 0x5C \<or> c = 0x22 \<or> c = 0x08 \<or> c = 0x0C \<or> c = 0x0A \<or> c = 0x0D \<or> c = 0x09"
    | "0x20 \<le> c" "c \<le> 0x7E" "c \<noteq> 0x5C" "c \<noteq> 0x22"
    | "c < 0x20" "c \<noteq> 0x08" "c \<noteq> 0x0C" "c \<noteq> 0x0A" "c \<noteq> 0x0D" "c \<noteq> 0x09"
    | "0x7E < c" "c < 0x10000"
    | "0x10000 \<le> c"
    by linarith
  then show ?thesis
  proof cases
    case 1
    with assms(2) show ?thesis
      by (elim disjE) (simp_all add: escape_char_def low_escape_def)
  next
    case 2
    with assms(2) show ?thesis by (simp add: escape_char_def low_escape_def)
  next
    case 3
    then have esc: "escape_char c = 0x5C # 0x75 # hex4 c" by (simp add: escape_char_def)
    have "c < 0x10000" using 3 by simp
    then have "decode_uXXXX (hex4 c @ t) = Some c" by (rule decode_uXXXX_hex4)
    with assms(2) esc show ?thesis by (simp add: low_escape_def)
  next
    case 4
    then have esc: "escape_char c = 0x5C # 0x75 # hex4 c" by (simp add: escape_char_def)
    have "decode_uXXXX (hex4 c @ t) = Some c" using 4(2) by (rule decode_uXXXX_hex4)
    with assms(2) esc show ?thesis by (simp add: low_escape_def)
  next
    case 5
    define n where "n = c - 0x10000"
    define s1 where "s1 = 0xD800 + n div 1024 mod 1024"
    have m1: "n div 1024 mod 1024 < 1024" by simp
    have s1: "s1 < 0x10000" "\<not> is_low s1" using m1 by (simp_all add: s1_def is_low_def)
    have esc: "escape_char c = 0x5C # 0x75 # hex4 s1 @
                 0x5C # 0x75 # hex4 (0xDC00 + n mod 1024)"
      using 5 by (simp add: escape_char_def Let_def n_def s1_def)
    have "decode_uXXXX (hex4 s1 @ 0x5C # 0x75 # hex4 (0xDC00 + n mod 1024) @ t) = Some s1"
      using s1(1) by (rule decode_uXXXX_hex4)
    with assms(2) s1(2) show ?thesis by (simp add: low_escape_def esc)
  qed
qed

lemma scanstring_escaped:
  "no_surrogate_pair s \<Longrightarrow>
   scanstring (concat (map escape_char s) @ 0x22 # rest) = Some (s, rest)"
proof (induction s)
  case Nil
  then show ?case by simp
next
  case (Cons c s)
  let ?t = "concat (map escape_char s) @ 0x22 # rest"
  from Cons.prems have c: "c < 0x110000" and s: "no_surrogate_pair s" by simp_all
  have "\<not> (is_high c \<and> low_escape ?t)"
  proof (cases s)
    case Nil
    then show ?thesis by (simp add: low_escape_quote)
  next
    case (Cons d ds)
    with s have d: "d < 0x110000" by simp
    from Cons Cons.prems have nl: "is_high c \<Longrightarrow> \<not> is_low d"
      using \<open>no_surrogate_pair (c # s)\<close> by simp
    have "low_escape ?t \<Longrightarrow> is_low d"
      using low_escape_escape_char [OF d, of "concat (map escape_char ds) @ 0x22 # rest"] Cons
      by simp
    with nl show ?thesis by blast
  qed
  from scanstring_escape_char [OF c this] Cons.IH [OF s]
  show ?case by (simp add: cons_char_def)
qed

lemma scanstring_encode_basestring_ascii:
  "no_surrogate_pair s \<Longrightarrow>
   \<exists>t. encode_basestring_ascii s @ rest = 0x22 # t \<and> scanstring t = Some (s, rest)"
  using scanstring_escaped [of s rest] by (simp add: encode_basestring_ascii_def)

subsection \<open>Integers are read back\<close>











subsection \<open>Whitespace, the first character of a value, and dicts\<close>











subsection \<open>Lists\<close>





subsection \<open>Dicts\<close>



subsection \<open>One value\<close>







subsection \<open>The whole text\<close>




section \<open>The claims\<close>

text \<open>
  C1. Whenever the event can be serialized, the handler returns the dict
  \<^verbatim>\<open>{'statusCode': 200, 'body': b}\<close> where \<open>b\<close> is what \<^verbatim>\<open>json.dumps('Success')\<close>
  gives. Another invocation, on any other serializable event, with any other context
  and in any other world, returns the same value.
\<close>

theorem lambda_handler_fixed_response:
  assumes "json_dumps frepr (Some 2) (heap w event) = Inr s"
    and "json_dumps frepr (Some 2) (heap w' event') = Inr s'"
  shows "\<exists>b. json_dumps frepr None (PStr (ascii ''Success'')) = Inr b \<and>
           fst (lambda_handler frepr event context w) =
             Inr (PDict [(PStr (ascii ''statusCode''), PInt 200),
                         (PStr (ascii ''body''), PStr b)]) \<and>
           fst (lambda_handler frepr event' context' w') =
             fst (lambda_handler frepr event context w)"
  using assms by (simp add: lambda_handler_Inr dumps_Success)

theorem lambda_handler_fixed_response_witness:
  "json_dumps (\<lambda>x. []) (Some 2)
     (heap \<lparr>heap = (\<lambda>a. PObject ''LambdaContext'')(0 := PDict []), stdout = []\<rparr> 0)
     = Inr (ascii ''{}'') \<and>
   json_dumps (\<lambda>x. []) (Some 2)
     (heap \<lparr>heap = (\<lambda>a. PNone)(5 := PList [PBool True]), stdout = [[]]\<rparr> 5)
     = Inr [0x5B, 0x0A, 0x20, 0x20, 0x74, 0x72, 0x75, 0x65, 0x0A, 0x5D] \<and>
   (\<exists>b. json_dumps (\<lambda>x. []) None (PStr (ascii ''Success'')) = Inr b \<and>
      fst (lambda_handler (\<lambda>x. []) 0 1
             \<lparr>heap = (\<lambda>a. PObject ''LambdaContext'')(0 := PDict []), stdout = []\<rparr>) =
        Inr (PDict [(PStr (ascii ''statusCode''), PInt 200), (PStr (ascii ''body''), PStr b)]) \<and>
      fst (lambda_handler (\<lambda>x. []) 5 7
             \<lparr>heap = (\<lambda>a. PNone)(5 := PList [PBool True]), stdout = [[]]\<rparr>) =
        fst (lambda_handler (\<lambda>x. []) 0 1
             \<lparr>heap = (\<lambda>a. PObject ''LambdaContext'')(0 := PDict []), stdout = []\<rparr>))"
proof -
  have h1: "json_dumps (\<lambda>x. []) (Some 2)
     (heap \<lparr>heap = (\<lambda>a. PObject ''LambdaContext'')(0 := PDict []), stdout = []\<rparr> 0)
     = Inr (ascii ''{}'')"
    by (simp add: json_dumps_def)
  have h2: "json_dumps (\<lambda>x. []) (Some 2)
     (heap \<lparr>heap = (\<lambda>a. PNone)(5 := PList [PBool True]), stdout = [[]]\<rparr> 5)
     = Inr [0x5B, 0x0A, 0x20, 0x20, 0x74, 0x72, 0x75, 0x65, 0x0A, 0x5D]"
    by (simp add: json_dumps_def newline_indent_def item_separator_def ascii_def numeral_2_eq_2)
  from lambda_handler_fixed_response [OF h1 h2, of 1 7] h1 h2 show ?thesis by blast
qed

text \<open>
  C2. When the event cannot be serialized, the handler ends with the exception that
  \<^verbatim>\<open>json.dumps\<close> raised: the exception is not caught, and no dict is returned.
\<close>

theorem lambda_handler_raises:
  assumes "json_dumps frepr (Some 2) (heap w event) = Inl e"
  shows "fst (lambda_handler frepr event context w) = Inl e \<and>
         (\<forall>r. fst (lambda_handler frepr event context w) \<noteq> Inr r)"
  using assms by (simp add: lambda_handler_Inl)

theorem lambda_handler_raises_witness:
  "json_dumps (\<lambda>x. []) (Some 2)
     (heap \<lparr>heap = (\<lambda>a. PNone)(3 := PDict [(PStr (ascii ''k''), PObject ''set'')]), stdout = []\<rparr> 3)
     = Inl (TypeError (ascii ''Object of type set is not JSON serializable'')) \<and>
   fst (lambda_handler (\<lambda>x. []) 3 4
     \<lparr>heap = (\<lambda>a. PNone)(3 := PDict [(PStr (ascii ''k''), PObject ''set'')]), stdout = []\<rparr>)
     = Inl (TypeError (ascii ''Object of type set is not JSON serializable'')) \<and>
   (\<forall>r. fst (lambda_handler (\<lambda>x. []) 3 4
     \<lparr>heap = (\<lambda>a. PNone)(3 := PDict [(PStr (ascii ''k''), PObject ''set'')]), stdout = []\<rparr>)
     \<noteq> Inr r)"
proof -
  have h: "json_dumps (\<lambda>x. []) (Some 2)
     (heap \<lparr>heap = (\<lambda>a. PNone)(3 := PDict [(PStr (ascii ''k''), PObject ''set'')]), stdout = []\<rparr> 3)
     = Inl (TypeError (ascii ''Object of type set is not JSON serializable''))"
    by (simp add: json_dumps_def) (simp add: ascii_def)
  from lambda_handler_raises [OF h, of 4] h show ?thesis by blast
qed




text \<open>
  C4. When the event can be serialized, the invocation returns a value, and the world it
  returns with is the world it started in with one more text on \<open>stdout\<close>: the label,
  a space, the serialized event and a newline. The store and every other part of the
  world are as they were. The text is already written in the world of the return.
\<close>

theorem lambda_handler_only_logs:
  assumes "json_dumps frepr (Some 2) (heap w event) = Inr s"
  shows "\<exists>r. lambda_handler frepr event context w =
           (Inr r, w\<lparr>stdout := stdout w @ [ascii ''Received S3 event:'' @ [0x20] @ s @ [0x0A]]\<rparr>)"
  using assms by (simp add: lambda_handler_Inr)

theorem lambda_handler_only_logs_witness:
  "json_dumps (\<lambda>x. []) (Some 2)
     (heap \<lparr>heap = (\<lambda>a. PNone)(2 := PList []), stdout = [ascii ''earlier line'']\<rparr> 2)
     = Inr (ascii ''[]'') \<and>
   (\<exists>r. lambda_handler (\<lambda>x. []) 2 9
           \<lparr>heap = (\<lambda>a. PNone)(2 := PList []), stdout = [ascii ''earlier line'']\<rparr> =
         (Inr r, \<lparr>heap = (\<lambda>a. PNone)(2 := PList []),
                  stdout = [ascii ''earlier line'',
                            ascii ''Received S3 event: []'' @ [0x0A]]\<rparr>))"
proof -
  have h: "json_dumps (\<lambda>x. []) (Some 2)
     (heap \<lparr>heap = (\<lambda>a. PNone)(2 := PList []), stdout = [ascii ''earlier line'']\<rparr> 2)
     = Inr (ascii ''[]'')"
    by (simp add: json_dumps_def)
  from lambda_handler_only_logs [OF h, of 9] h show ?thesis by (simp add: ascii_def)
qed

text \<open>
  C5. For the empty dict as event, and any context, the handler returns
  \<^verbatim>\<open>{'statusCode': 200, 'body': '"Success"'}\<close>: the body is the word between two
  double quotes.
\<close>

theorem lambda_handler_empty_event:
  assumes "heap w event = PDict []"
  shows "fst (lambda_handler frepr event context w) =
           Inr (PDict [(PStr (ascii ''statusCode''), PInt 200),
                       (PStr (ascii ''body''), PStr ([0x22] @ ascii ''Success'' @ [0x22]))])"
proof -
  from assms have "json_dumps frepr (Some 2) (heap w event) = Inr (ascii ''{}'')"
    by (simp add: json_dumps_def)
  then show ?thesis by (simp add: lambda_handler_Inr)
qed

theorem lambda_handler_empty_event_witness:
  "heap \<lparr>heap = (\<lambda>a. PDict []), stdout = []\<rparr> 0 = PDict [] \<and>
   fst (lambda_handler (\<lambda>x. []) 0 1 \<lparr>heap = (\<lambda>a. PDict []), stdout = []\<rparr>) =
     Inr (PDict [(PStr (ascii ''statusCode''), PInt 200),
                 (PStr (ascii ''body''), PStr ([0x22] @ ascii ''Success'' @ [0x22]))])"
proof -
  have h: "heap \<lparr>heap = (\<lambda>a. PDict []), stdout = []\<rparr> 0 = PDict []" by simp
  from lambda_handler_empty_event [OF h, of "\<lambda>x. []" 1] h show ?thesis by blast
qed

text \<open>
  C6. Two invocations in a row on the same serializable event, with any two contexts,
  return the same value, and write the same text twice.
\<close>

theorem lambda_handler_twice:
  assumes "json_dumps frepr (Some 2) (heap w event) = Inr s"
  shows "(\<exists>r. fst (lambda_handler frepr event context w) = Inr r) \<and>
         fst (lambda_handler frepr event context' (snd (lambda_handler frepr event context w))) =
           fst (lambda_handler frepr event context w) \<and>
         stdout (snd (lambda_handler frepr event context'
                        (snd (lambda_handler frepr event context w)))) =
           stdout w @ [ascii ''Received S3 event:'' @ [0x20] @ s @ [0x0A],
                       ascii ''Received S3 event:'' @ [0x20] @ s @ [0x0A]]"
proof -
  let ?w1 = "w\<lparr>stdout := stdout w @ [ascii ''Received S3 event:'' @ [0x20] @ s @ [0x0A]]\<rparr>"
  have 1: "snd (lambda_handler frepr event context w) = ?w1"
    using assms by (simp add: lambda_handler_Inr)
  have "json_dumps frepr (Some 2) (heap ?w1 event) = Inr s"
    using assms by simp
  from lambda_handler_Inr [OF this] lambda_handler_Inr [OF assms] 1
  show ?thesis by simp
qed

theorem lambda_handler_twice_witness:
  "json_dumps (\<lambda>x. []) (Some 2)
     (heap \<lparr>heap = (\<lambda>a. PNone)(1 := PInt 7), stdout = []\<rparr> 1) = Inr (ascii ''7'') \<and>
   (\<exists>r. fst (lambda_handler (\<lambda>x. []) 1 2
            \<lparr>heap = (\<lambda>a. PNone)(1 := PInt 7), stdout = []\<rparr>) = Inr r) \<and>
   fst (lambda_handler (\<lambda>x. []) 1 3
          (snd (lambda_handler (\<lambda>x. []) 1 2
                  \<lparr>heap = (\<lambda>a. PNone)(1 := PInt 7), stdout = []\<rparr>))) =
     fst (lambda_handler (\<lambda>x. []) 1 2 \<lparr>heap = (\<lambda>a. PNone)(1 := PInt 7), stdout = []\<rparr>) \<and>
   stdout (snd (lambda_handler (\<lambda>x. []) 1 3
          (snd (lambda_handler (\<lambda>x. []) 1 2
                  \<lparr>heap = (\<lambda>a. PNone)(1 := PInt 7), stdout = []\<rparr>)))) =
     [ascii ''Received S3 event: 7'' @ [0x0A], ascii ''Received S3 event: 7'' @ [0x0A]]"
proof -
  have h: "json_dumps (\<lambda>x. []) (Some 2)
     (heap \<lparr>heap = (\<lambda>a. PNone)(1 := PInt 7), stdout = []\<rparr> 1) = Inr (ascii ''7'')"
    by (simp add: json_dumps_def int_repr_def nat_repr.simps ascii_def)
  from lambda_handler_twice [OF h, of 2 3] h show ?thesis by (simp add: ascii_def)
qed

text \<open>
  C7. Every value the handler returns is a dict with exactly the two keys
  \<^verbatim>\<open>statusCode\<close> and \<^verbatim>\<open>body\<close>, in that order, the first with an integer and the
  second with a string.
\<close>

theorem lambda_handler_response_shape:
  assumes "fst (lambda_handler frepr event context w) = Inr r"
  shows "\<exists>n b. r = PDict [(PStr (ascii ''statusCode''), PInt n), (PStr (ascii ''body''), PStr b)]"
proof (cases "json_dumps frepr (Some 2) (heap w event)")
  case (Inl e)
  with assms show ?thesis by (simp add: lambda_handler_Inl)
next
  case (Inr s)
  with assms show ?thesis by (auto simp: lambda_handler_Inr)
qed

theorem lambda_handler_response_shape_witness:
  "fst (lambda_handler (\<lambda>x. []) 0 0 \<lparr>heap = (\<lambda>a. PBool False), stdout = []\<rparr>) =
     Inr (PDict [(PStr (ascii ''statusCode''), PInt 200),
                 (PStr (ascii ''body''), PStr ([0x22] @ ascii ''Success'' @ [0x22]))]) \<and>
   (\<exists>n b. PDict [(PStr (ascii ''statusCode''), PInt 200),
                 (PStr (ascii ''body''), PStr ([0x22] @ ascii ''Success'' @ [0x22]))] =
          PDict [(PStr (ascii ''statusCode''), PInt n), (PStr (ascii ''body''), PStr b)])"
proof -
  have "json_dumps (\<lambda>x. []) (Some 2) (heap \<lparr>heap = (\<lambda>a. PBool False), stdout = []\<rparr> 0)
          = Inr (ascii ''false'')"
    by (simp add: json_dumps_def)
  then have h: "fst (lambda_handler (\<lambda>x. []) 0 0 \<lparr>heap = (\<lambda>a. PBool False), stdout = []\<rparr>) =
     Inr (PDict [(PStr (ascii ''statusCode''), PInt 200),
                 (PStr (ascii ''body''), PStr ([0x22] @ ascii ''Success'' @ [0x22]))])"
    by (simp add: lambda_handler_Inr)
  from lambda_handler_response_shape [OF h] h show ?thesis by blast
qed

text \<open>
  C8. The store is the same after the invocation as before, whether it raises or
  returns: the event is not changed and nothing is stored. Nothing but \<open>stdout\<close>
  changes elsewhere in the world. The outcome and the text written depend on the value
  of the event alone: the context, the address of either argument and every other
  object of the store can be changed without changing them.
\<close>

theorem lambda_handler_frame:
  "heap (snd (lambda_handler frepr event context w)) = heap w \<and>
   world.more (snd (lambda_handler frepr event context w)) = world.more w \<and>
   (heap w' event' = heap w event \<longrightarrow>
      fst (lambda_handler frepr event' context' w') = fst (lambda_handler frepr event context w) \<and>
      (\<exists>new. stdout (snd (lambda_handler frepr event context w)) = stdout w @ new \<and>
             stdout (snd (lambda_handler frepr event' context' w')) = stdout w' @ new))"
proof (cases "json_dumps frepr (Some 2) (heap w event)")
  case (Inl e)
  then show ?thesis by (auto simp: lambda_handler_Inl)
next
  case (Inr s)
  then show ?thesis by (auto simp: lambda_handler_Inr)
qed

theorem lambda_handler_frame_witness:
  "heap (snd (lambda_handler (\<lambda>x. []) 0 1
      \<lparr>heap = (\<lambda>a. PObject ''LambdaContext'')(0 := PNone), stdout = []\<rparr>)) =
     (\<lambda>a. PObject ''LambdaContext'')(0 := PNone) \<and>
   heap \<lparr>heap = (\<lambda>a. PObject ''Other'')(4 := PNone), stdout = [[]]\<rparr> 4 =
     heap \<lparr>heap = (\<lambda>a. PObject ''LambdaContext'')(0 := PNone), stdout = []\<rparr> 0 \<and>
   fst (lambda_handler (\<lambda>x. []) 4 6
      \<lparr>heap = (\<lambda>a. PObject ''Other'')(4 := PNone), stdout = [[]]\<rparr>) =
   fst (lambda_handler (\<lambda>x. []) 0 1
      \<lparr>heap = (\<lambda>a. PObject ''LambdaContext'')(0 := PNone), stdout = []\<rparr>)"
proof -
  have h: "heap \<lparr>heap = (\<lambda>a. PObject ''Other'')(4 := PNone), stdout = [[]]\<rparr> 4 =
     heap \<lparr>heap = (\<lambda>a. PObject ''LambdaContext'')(0 := PNone), stdout = []\<rparr> 0" by simp
  from lambda_handler_frame [of "\<lambda>x. []" 0 1
      "\<lparr>heap = (\<lambda>a. PObject ''LambdaContext'')(0 := PNone), stdout = []\<rparr>"
      "\<lparr>heap = (\<lambda>a. PObject ''Other'')(4 := PNone), stdout = [[]]\<rparr>" 4 6] h
  show ?thesis by simp
qed



text \<open>
  C10. When the serialization of the event raises, the world is left as it was: nothing
  has been written to \<open>stdout\<close>.
\<close>

theorem lambda_handler_error_leaves_log:
  assumes "json_dumps frepr (Some 2) (heap w event) = Inl e"
  shows "snd (lambda_handler frepr event context w) = w \<and>
         stdout (snd (lambda_handler frepr event context w)) = stdout w"
  using assms by (simp add: lambda_handler_Inl)

theorem lambda_handler_error_leaves_log_witness:
  "json_dumps (\<lambda>x. []) (Some 2)
     (heap \<lparr>heap = (\<lambda>a. PNone)(0 := PDict [(PTuple [PInt 1], PStr (ascii ''v''))]),
            stdout = [ascii ''earlier line'']\<rparr> 0)
     = Inl (TypeError (ascii ''keys must be str, int, float, bool or None, not tuple'')) \<and>
   stdout (snd (lambda_handler (\<lambda>x. []) 0 1
      \<lparr>heap = (\<lambda>a. PNone)(0 := PDict [(PTuple [PInt 1], PStr (ascii ''v''))]),
            stdout = [ascii ''earlier line'']\<rparr>)) = [ascii ''earlier line'']"
proof -
  have h: "json_dumps (\<lambda>x. []) (Some 2)
     (heap \<lparr>heap = (\<lambda>a. PNone)(0 := PDict [(PTuple [PInt 1], PStr (ascii ''v''))]),
            stdout = [ascii ''earlier line'']\<rparr> 0)
     = Inl (TypeError (ascii ''keys must be str, int, float, bool or None, not tuple''))"
    by (simp add: json_dumps_def) (simp add: ascii_def)
  from lambda_handler_error_leaves_log [OF h, of 1] h show ?thesis by simp
qed

end
